theory Spec2Isabelle
  imports Main "HOL-Library.Multiset"
begin

section \<open>The chatbot development server (javascript-version/server.py)\<close>

text \<open>
  The program is one request handler class, \<open>ChatbotRequestHandler\<close>, derived from
  Python's \<open>http.server.SimpleHTTPRequestHandler\<close>, and a \<open>main\<close> function that binds
  the listener. The handler methods of the source (\<open>do_POST\<close>, \<open>proxy_to_backend\<close>,
  \<open>do_OPTIONS\<close>, \<open>end_headers\<close>) and \<open>main\<close> are embedded one to one. What they
  call in the standard library and in \<open>requests\<close> is written out as far as the handler
  observes it; everything that depends on the interpreter, the clock, the file system or
  the upstream service is a field of the environment record \<open>env\<close>.

  Bytes and text are both \<open>string\<close>: an Isabelle character is one byte, and text outside
  ASCII is kept in its UTF-8 encoding.
\<close>

subsection \<open>Constants of the module\<close>

type_synonym bytes = string
type_synonym header = "string \<times> string"

definition PORT :: nat where
  "PORT = 8080"

definition BACKEND_URL :: string where
  "BACKEND_URL = ''http://localhost:5000''"

subsection \<open>Exceptions\<close>

text \<open>
  The exception classes that the handler and \<open>main\<close> can meet, with the class tests
  of the source: \<open>except requests.exceptions.ConnectionError\<close>, \<open>except Exception\<close> and
  \<open>except OSError\<close>. In \<open>requests\<close>, \<open>ProxyError\<close>, \<open>SSLError\<close> and \<open>ConnectTimeout\<close> are
  subclasses of \<open>ConnectionError\<close>; \<open>ReadTimeout\<close> is not. Every \<open>requests\<close> exception is
  an \<open>OSError\<close> (through \<open>RequestException\<close>). \<open>KeyboardInterrupt\<close> and \<open>SystemExit\<close> are
  not subclasses of \<open>Exception\<close>.
\<close>

datatype exc_class =
    TypeError | ValueError | OverflowError | OSError | MemoryError
  | KeyboardInterrupt | SystemExit
  | RequestException | RequestsConnectionError | ProxyError | SSLError
  | Timeout | ConnectTimeout | ReadTimeout
  | ChunkedEncodingError | ContentDecodingError | TooManyRedirects | InvalidHeader

datatype exn = Exn (exc_class: exc_class) (exc_errno: "int option") (exc_str: string)

fun is_ConnectionError :: "exc_class \<Rightarrow> bool" where
  "is_ConnectionError RequestsConnectionError = True"
| "is_ConnectionError ProxyError = True"
| "is_ConnectionError SSLError = True"
| "is_ConnectionError ConnectTimeout = True"
| "is_ConnectionError _ = False"


fun is_Exception :: "exc_class \<Rightarrow> bool" where
  "is_Exception KeyboardInterrupt = False"
| "is_Exception SystemExit = False"
| "is_Exception _ = True"

fun is_OSError :: "exc_class \<Rightarrow> bool" where
  "is_OSError OSError = True"
| "is_OSError RequestException = True"
| "is_OSError RequestsConnectionError = True"
| "is_OSError ProxyError = True"
| "is_OSError SSLError = True"
| "is_OSError Timeout = True"
| "is_OSError ConnectTimeout = True"
| "is_OSError ReadTimeout = True"
| "is_OSError ChunkedEncodingError = True"
| "is_OSError ContentDecodingError = True"
| "is_OSError TooManyRedirects = True"
| "is_OSError InvalidHeader = True"
| "is_OSError _ = False"

subsection \<open>Requests, upstream calls and the environment\<close>

text \<open>
  A request as the handler object holds it once the library has parsed the request line and
  the header block: \<open>self.command\<close>, \<open>self.path\<close>, \<open>self.headers\<close> and \<open>self.rfile\<close>.
  \<open>rfile\<close> is the sequence of bytes the client sends after the header block before it
  stops sending.
\<close>

record request =
  command :: string
  path :: string
  headers :: "header list"
  rfile :: bytes

text \<open>The arguments of one \<open>requests.post\<close> call, and the parts of its response.\<close>

record post_call =
  url :: string
  data :: bytes
  call_headers :: "header list"
  timeout :: nat

record upstream_response =
  status_code :: int
  response_headers :: "header list"
  content :: bytes

text \<open>What the static root holds at a resolved request path.\<close>

datatype fs_entry = Absent | RegularFile bytes | Directory "bytes option"

text \<open>
  The environment. Of the interpreter and the library: the \<open>Server\<close> and \<open>Date\<close> values,
  the table of reason phrases, the error page for a code and a message (with the table's
  explanation, or with a given one), \<open>repr\<close> of a string, the text of the exception that
  \<open>int\<close> raises on an argument, the limit on the number of digits \<open>int\<close> converts (0 for no
  limit, otherwise at least 640), and whether the reader of the connection obtains a buffer
  of a given size (\<open>None\<close> if it does, otherwise the exception, \<open>MemoryError\<close> when the
  allocation fails). Of the outside world: the upstream service and the file system.
\<close>

record env =
  version_string :: string
  date_time_string :: string
  responses :: "int \<Rightarrow> string"
  error_message_format :: "int \<Rightarrow> string \<Rightarrow> bytes"
  error_message_explained :: "int \<Rightarrow> string \<Rightarrow> string \<Rightarrow> bytes"
  repr :: "string \<Rightarrow> string"
  int_error_text :: "string option \<Rightarrow> string"
  int_max_str_digits :: nat
  read_buffer :: "nat \<Rightarrow> exn option"
  requests_post :: "post_call \<Rightarrow> exn + upstream_response"
  resolve :: "string \<Rightarrow> string \<Rightarrow> fs_entry"
  guess_type :: "string \<Rightarrow> string"

subsection \<open>The handler's output\<close>

text \<open>
  What the handler writes is kept in the order it is written: the status line, the header
  lines, the blank line that ends the header block, and the chunks of the body. The handler
  object buffers the status line and the header lines in \<open>headers_buffer\<close> until
  \<open>end_headers\<close> flushes them to \<open>wfile\<close>. \<open>stdout\<close> holds the lines printed with
  \<open>print\<close>, \<open>posted\<close> the outbound calls made.
\<close>

datatype chunk = StatusLine int string | HeaderLine string string | EndOfHeaders | Body bytes

record handler =
  headers_buffer :: "chunk list"
  wfile :: "chunk list"
  stdout :: "string list"
  posted :: "post_call list"

definition new_handler :: handler where
  "new_handler = \<lparr>headers_buffer = [], wfile = [], stdout = [], posted = []\<rparr>"

text \<open>The response a client reads off the wire.\<close>

fun status_of :: "chunk list \<Rightarrow> int option" where
  "status_of (StatusLine code message # cs) = Some code"
| "status_of _ = None"


fun headers_of :: "chunk list \<Rightarrow> header list" where
  "headers_of [] = []"
| "headers_of (HeaderLine k v # cs) = (k, v) # headers_of cs"
| "headers_of (EndOfHeaders # cs) = []"
| "headers_of (c # cs) = headers_of cs"




subsection \<open>Library primitives the handler calls\<close>

text \<open>Decimal rendering of a natural number, Python's \<open>str\<close> on a non-negative int.\<close>

definition digit_char :: "nat \<Rightarrow> char" where
  "digit_char d = ''0123456789'' ! d"

fun str_of_nat :: "nat \<Rightarrow> string" where
  "str_of_nat n = (if n < 10 then [digit_char n] else str_of_nat (n div 10) @ [digit_char (n mod 10)])"

declare str_of_nat.simps [simp del]

text \<open>
  \<open>int(s)\<close> on a string, base 10: surrounding white space is dropped, then an optional
  sign, then digits, where single underscores may separate digits. The white space \<open>int\<close>
  drops is tab to carriage return, the space, and the two spaces outside ASCII of a header
  value (0x85 and 0xA0); the separators 0x1C to 0x1F are not dropped.
\<close>

definition is_space :: "char \<Rightarrow> bool" where
  "is_space c \<longleftrightarrow> c \<in> set [CHR 0x09, CHR 0x0A, CHR 0x0B, CHR 0x0C, CHR 0x0D, CHR 0x20,
     CHR 0x85, CHR 0xA0]"

definition strip :: "string \<Rightarrow> string" where
  "strip s = rev (dropWhile is_space (rev (dropWhile is_space s)))"

definition digit_val :: "char \<Rightarrow> nat option" where
  "digit_val c = map_of (zip ''0123456789'' [0, 1, 2, 3, 4, 5, 6, 7, 8, 9]) c"

fun more_digits :: "nat \<Rightarrow> string \<Rightarrow> nat option" where
  "more_digits acc [] = Some acc"
| "more_digits acc [c] =
    (case digit_val c of None \<Rightarrow> None | Some v \<Rightarrow> Some (acc * 10 + v))"
| "more_digits acc (c # d # ds) =
    (if c = CHR ''_'' then
       (case digit_val d of None \<Rightarrow> None | Some v \<Rightarrow> more_digits (acc * 10 + v) ds)
     else
       (case digit_val c of None \<Rightarrow> None | Some v \<Rightarrow> more_digits (acc * 10 + v) (d # ds)))"

definition unsigned_int :: "string \<Rightarrow> nat option" where
  "unsigned_int s =
    (case s of [] \<Rightarrow> None
     | c # cs \<Rightarrow> (case digit_val c of None \<Rightarrow> None | Some v \<Rightarrow> more_digits v cs))"

definition int_of_str :: "string \<Rightarrow> int option" where
  "int_of_str s =
    (case strip s of [] \<Rightarrow> None
     | c # cs \<Rightarrow>
        if c = CHR ''-'' then map_option (\<lambda>n. - int n) (unsigned_int cs)
        else if c = CHR ''+'' then map_option int (unsigned_int cs)
        else map_option int (unsigned_int (c # cs)))"

text \<open>
  \<open>int(self.headers['Content-Length'])\<close>: the lookup compares header names without
  regard to case and takes the first match; it gives \<open>None\<close> for a missing header, on
  which \<open>int\<close> raises \<open>TypeError\<close>; on a string that is no integer \<open>int\<close> raises
  \<open>ValueError\<close>.
\<close>

definition lower :: "string \<Rightarrow> string" where
  "lower s =
    map (\<lambda>c. case map_of (zip ''ABCDEFGHIJKLMNOPQRSTUVWXYZ'' ''abcdefghijklmnopqrstuvwxyz'') c of
                None \<Rightarrow> c | Some l \<Rightarrow> l) s"

definition get_header :: "header list \<Rightarrow> string \<Rightarrow> string option" where
  "get_header hs name = map_of (map (\<lambda>(k, v). (lower k, v)) hs) (lower name)"

definition is_digit :: "char \<Rightarrow> bool" where
  "is_digit c \<longleftrightarrow> digit_val c \<noteq> None"

text \<open>
  The interpreter refuses to convert a literal of more digits than its limit; it counts
  only beyond 640 digits.
\<close>

definition too_many_digits :: "env \<Rightarrow> string \<Rightarrow> bool" where
  "too_many_digits e s \<longleftrightarrow>
     0 < int_max_str_digits e \<and> 640 < length (filter is_digit s) \<and>
     int_max_str_digits e < length (filter is_digit s)"

definition py_int :: "env \<Rightarrow> string option \<Rightarrow> exn + int" where
  "py_int e v =
    (case v of
       None \<Rightarrow> Inl (Exn TypeError None (int_error_text e None))
     | Some s \<Rightarrow>
        (case int_of_str s of
           None \<Rightarrow> Inl (Exn ValueError None (int_error_text e (Some s)))
         | Some n \<Rightarrow>
            if too_many_digits e s then Inl (Exn ValueError None (int_error_text e (Some s)))
            else Inr n))"

text \<open>
  \<open>self.rfile.read(n)\<close> on the buffered reader of the connection: a number outside the
  platform's index range overflows, a number below \<open>-1\<close> is refused, \<open>-1\<close> reads to the end
  of the stream, a number beyond the largest byte string (the index range less the 33 bytes
  of the object's header) is refused as too large, and otherwise the reader obtains a
  buffer for \<open>n\<close> bytes, which can fail, and returns at most \<open>n\<close> bytes.
\<close>

definition SSIZE_MAX :: int where
  "SSIZE_MAX = 2 ^ 63 - 1"

definition BYTES_MAX :: int where
  "BYTES_MAX = SSIZE_MAX - 33"

definition rfile_read :: "env \<Rightarrow> bytes \<Rightarrow> int \<Rightarrow> exn + bytes" where
  "rfile_read e rf n =
    (if n > SSIZE_MAX \<or> n < - SSIZE_MAX - 1 then
       Inl (Exn OverflowError None
         (''cannot fit '' @ [CHR 0x27] @ ''int'' @ [CHR 0x27] @ '' into an index-sized integer''))
     else if n < - 1 then
       Inl (Exn ValueError None ''read length must be non-negative or -1'')
     else if n = - 1 then Inr rf
     else if n > BYTES_MAX then
       Inl (Exn OverflowError None ''byte string is too large'')
     else
       (case read_buffer e (nat n) of
          Some x \<Rightarrow> Inl x
        | None \<Rightarrow> Inr (take (nat n) rf)))"

text \<open>
  \<open>send_response_only\<close>, \<open>send_response\<close>, \<open>send_header\<close> and the base class's
  \<open>end_headers\<close> of \<open>BaseHTTPRequestHandler\<close>, for a request of HTTP/1.0 or later.
  \<open>send_response\<close> takes the reason phrase from the table \<open>responses\<close> when none is given,
  and adds the \<open>Server\<close> and \<open>Date\<close> headers.
\<close>

definition send_header :: "string \<Rightarrow> string \<Rightarrow> handler \<Rightarrow> handler" where
  "send_header keyword val h = h\<lparr>headers_buffer := headers_buffer h @ [HeaderLine keyword val]\<rparr>"

definition send_response_only :: "env \<Rightarrow> int \<Rightarrow> string option \<Rightarrow> handler \<Rightarrow> handler" where
  "send_response_only e code message h =
    h\<lparr>headers_buffer := headers_buffer h @
        [StatusLine code (case message of None \<Rightarrow> responses e code | Some m \<Rightarrow> m)]\<rparr>"

definition send_response :: "env \<Rightarrow> int \<Rightarrow> string option \<Rightarrow> handler \<Rightarrow> handler" where
  "send_response e code message h =
    send_header ''Date'' (date_time_string e)
      (send_header ''Server'' (version_string e)
        (send_response_only e code message h))"

definition base_end_headers :: "handler \<Rightarrow> handler" where
  "base_end_headers h =
    h\<lparr>wfile := wfile h @ headers_buffer h @ [EndOfHeaders], headers_buffer := []\<rparr>"

definition wfile_write :: "bytes \<Rightarrow> handler \<Rightarrow> handler" where
  "wfile_write b h = h\<lparr>wfile := wfile h @ [Body b]\<rparr>"

definition print :: "string \<Rightarrow> handler \<Rightarrow> handler" where
  "print line h = h\<lparr>stdout := stdout h @ [line]\<rparr>"

subsection \<open>The handler of the source\<close>

text \<open>
  \<open>end_headers\<close> (source lines 71 to 74): the override adds the CORS header and then calls
  the base class.
\<close>

definition end_headers :: "handler \<Rightarrow> handler" where
  "end_headers h = base_end_headers (send_header ''Access-Control-Allow-Origin'' ''*'' h)"

text \<open>
  \<open>send_error\<close> of the base class. It calls \<open>self.end_headers()\<close>, which is the override
  above. The body is left out for the codes below 200 and for 204, 205 and 304, and it is
  not written in answer to \<open>HEAD\<close>. The page is \<open>error_message_format\<close> filled in with the
  code and the message. (The log lines the base class writes to standard error are left
  out.)
\<close>

definition send_error :: "env \<Rightarrow> request \<Rightarrow> int \<Rightarrow> string \<Rightarrow> handler \<Rightarrow> handler" where
  "send_error e req code message h =
    (let h1 = send_header ''Connection'' ''close'' (send_response e code (Some message) h) in
     if code \<ge> 200 \<and> code \<notin> {204, 205, 304} then
       (let body = error_message_format e code message;
            h2 = end_headers
                   (send_header ''Content-Length'' (str_of_nat (length body))
                     (send_header ''Content-Type'' ''text/html;charset=utf-8'' h1))
        in if command req \<noteq> ''HEAD'' \<and> body \<noteq> [] then wfile_write body h2 else h2)
     else end_headers h1)"

text \<open>\<open>do_OPTIONS\<close> (source lines 63 to 69).\<close>

definition do_OPTIONS :: "env \<Rightarrow> handler \<Rightarrow> handler" where
  "do_OPTIONS e h =
    end_headers
      (send_header ''Access-Control-Allow-Headers'' ''Content-Type''
        (send_header ''Access-Control-Allow-Methods'' ''POST, GET, OPTIONS''
          (send_header ''Access-Control-Allow-Origin'' ''*''
            (send_response e 200 None h))))"

text \<open>
  \<open>proxy_to_backend\<close> (source lines 32 to 61). \<open>proxy_try\<close> is the body of the \<open>try\<close>
  statement: it gives the handler as the body left it and the exception that ended the
  body, if one did. \<open>proxy_to_backend\<close> adds the two \<open>except\<close> clauses in their order; an
  exception that neither clause catches leaves the method, and is the second component
  of the result.
\<close>

definition proxy_call :: "bytes \<Rightarrow> post_call" where
  "proxy_call post_data =
    \<lparr>url = BACKEND_URL @ ''/api/track-order'', data = post_data,
     call_headers = [(''Content-Type'', ''application/json'')], timeout = 10\<rparr>"

definition relay :: "env \<Rightarrow> upstream_response \<Rightarrow> handler \<Rightarrow> handler" where
  "relay e response h =
    wfile_write (content response)
      (end_headers
        (send_header ''Access-Control-Allow-Headers'' ''Content-Type''
          (send_header ''Access-Control-Allow-Methods'' ''POST, GET, OPTIONS''
            (send_header ''Access-Control-Allow-Origin'' ''*''
              (send_header ''Content-Type'' ''application/json''
                (send_response e (status_code response) None h))))))"

definition proxy_try :: "env \<Rightarrow> request \<Rightarrow> handler \<Rightarrow> handler \<times> exn option" where
  "proxy_try e req h =
    (case py_int e (get_header (headers req) ''Content-Length'') of
       Inl x \<Rightarrow> (h, Some x)
     | Inr content_length \<Rightarrow>
        (case rfile_read e (rfile req) content_length of
           Inl x \<Rightarrow> (h, Some x)
         | Inr post_data \<Rightarrow>
            (let h1 = h\<lparr>posted := posted h @ [proxy_call post_data]\<rparr> in
             case requests_post e (proxy_call post_data) of
               Inl x \<Rightarrow> (h1, Some x)
             | Inr response \<Rightarrow> (relay e response h1, None))))"

definition proxy_to_backend :: "env \<Rightarrow> request \<Rightarrow> handler \<Rightarrow> handler \<times> exn option" where
  "proxy_to_backend e req h =
    (case proxy_try e req h of
       (h1, None) \<Rightarrow> (h1, None)
     | (h1, Some x) \<Rightarrow>
        if is_ConnectionError (exc_class x) then
          (send_error e req 503 ''Backend service unavailable'' h1, None)
        else if is_Exception (exc_class x) then
          (send_error e req 500 ''Internal server error''
             (print (''Proxy error: '' @ exc_str x) h1), None)
        else (h1, Some x))"

text \<open>\<open>do_POST\<close> (source lines 25 to 30).\<close>

definition do_POST :: "env \<Rightarrow> request \<Rightarrow> handler \<Rightarrow> handler \<times> exn option" where
  "do_POST e req h =
    (if path req = ''/api/track-order'' then proxy_to_backend e req h
     else (send_error e req 404 ''API endpoint not found'' h, None))"

subsection \<open>Static files\<close>

text \<open>
  The handler class inherits \<open>do_GET\<close> and \<open>do_HEAD\<close> from \<open>SimpleHTTPRequestHandler\<close>
  and does not define them; the source only fixes the root directory (source lines 20 to
  23). The static responder below therefore follows section 4.1 of the specification, with
  the file system as the field \<open>resolve\<close> of the environment.
\<close>

definition STATIC_ROOT :: string where
  "STATIC_ROOT = ''javascript-version''"

text \<open>
  Modelled from the spec: the inherited file responder answering with a file. Section 4.1:
  the file's bytes are sent with an inferred content type and status 200. The header block
  is ended by \<open>end_headers\<close>, the override of the source; a \<open>HEAD\<close> request gets the
  header block only.
\<close>

definition send_file :: "env \<Rightarrow> request \<Rightarrow> bytes \<Rightarrow> handler \<Rightarrow> handler" where
  "send_file e req file_bytes h =
    (let h1 = end_headers
                (send_header ''Content-Length'' (str_of_nat (length file_bytes))
                  (send_header ''Content-type'' (guess_type e (path req))
                    (send_response e 200 None h)))
     in if command req = ''HEAD'' then h1 else wfile_write file_bytes h1)"

text \<open>
  Modelled from the spec: the inherited file responder. Section 4.1: the request path is
  resolved against the root; a regular file there is sent; a directory falls back to its
  index document if it has one; if nothing resolves the answer is 404 with a generic error
  body.
\<close>

definition send_static :: "env \<Rightarrow> request \<Rightarrow> handler \<Rightarrow> handler" where
  "send_static e req h =
    (case resolve e STATIC_ROOT (path req) of
       RegularFile file_bytes \<Rightarrow> send_file e req file_bytes h
     | Directory (Some index_bytes) \<Rightarrow> send_file e req index_bytes h
     | Directory None \<Rightarrow> send_error e req 404 ''File not found'' h
     | Absent \<Rightarrow> send_error e req 404 ''File not found'' h)"

text \<open>Modelled from the spec: the inherited \<open>do_GET\<close>, the static file responder.\<close>

definition do_GET :: "env \<Rightarrow> request \<Rightarrow> handler \<Rightarrow> handler" where
  "do_GET e req h = send_static e req h"

text \<open>
  Modelled from the spec: the inherited \<open>do_HEAD\<close>, the static file responder without the
  body.
\<close>

definition do_HEAD :: "env \<Rightarrow> request \<Rightarrow> handler \<Rightarrow> handler" where
  "do_HEAD e req h = send_static e req h"

subsection \<open>Dispatch\<close>

text \<open>
  The base class calls the method \<open>do_\<close> followed by the request's command, and answers
  501 when the handler has no such method. The handler of the source has \<open>do_POST\<close> and
  \<open>do_OPTIONS\<close> of its own and inherits \<open>do_GET\<close> and \<open>do_HEAD\<close>. The result is the
  handler as the method left it, and the exception that left the method, if one did.
  \<open>handle_request\<close> is this dispatch for a parsed request whose version is not HTTP/0.9;
  \<open>handle_one_request\<close> below starts from the request line and covers the rest.
\<close>

definition handle_request :: "env \<Rightarrow> request \<Rightarrow> handler \<times> exn option" where
  "handle_request e req =
    (if command req = ''GET'' then (do_GET e req new_handler, None)
     else if command req = ''HEAD'' then (do_HEAD e req new_handler, None)
     else if command req = ''POST'' then do_POST e req new_handler
     else if command req = ''OPTIONS'' then (do_OPTIONS e new_handler, None)
     else (send_error e req 501
             (''Unsupported method ('' @ repr e (command req) @ '')'') new_handler, None))"

subsection \<open>The request line\<close>

text \<open>
  What the client sends, as \<open>handle_one_request\<close> of the base class reads it: the first
  line (at most 65537 bytes, with its line end), the header block as the library's header
  parser leaves it (the headers, or the message and explanation of its failure on an
  over-long line or on too many headers), and the bytes after the header block.
\<close>

record raw_request =
  raw_requestline :: bytes
  header_block :: "(string \<times> string) + header list"
  body_stream :: bytes

text \<open>\<open>str.split()\<close> splits at runs of white space, which for text includes 0x1C to 0x1F.\<close>

definition is_unicode_space :: "char \<Rightarrow> bool" where
  "is_unicode_space c \<longleftrightarrow> c \<in> set [CHR 0x09, CHR 0x0A, CHR 0x0B, CHR 0x0C, CHR 0x0D,
     CHR 0x1C, CHR 0x1D, CHR 0x1E, CHR 0x1F, CHR 0x20, CHR 0x85, CHR 0xA0]"

fun split_ws :: "string \<Rightarrow> string \<Rightarrow> string list" where
  "split_ws word [] = (if word = [] then [] else [rev word])"
| "split_ws word (c # cs) =
    (if is_unicode_space c then (if word = [] then split_ws [] cs else rev word # split_ws [] cs)
     else split_ws (c # word) cs)"

definition rstrip_crlf :: "string \<Rightarrow> string" where
  "rstrip_crlf s = rev (dropWhile (\<lambda>c. c = CHR 0x0D \<or> c = CHR 0x0A) (rev s))"

text \<open>\<open>s.split(sep)\<close> for a separator of one character.\<close>

fun split_on :: "char \<Rightarrow> string \<Rightarrow> string list" where
  "split_on sep [] = [[]]"
| "split_on sep (c # cs) =
    (if c = sep then [] # split_on sep cs
     else (case split_on sep cs of [] \<Rightarrow> [[c]] | part # parts \<Rightarrow> (c # part) # parts))"

text \<open>
  The version word of the request line: \<open>HTTP/\<close>, then two components separated by one
  dot, each of one to ten digits. The result is the pair of numbers, or \<open>None\<close> where the
  library raises \<open>ValueError\<close>.
\<close>

definition version_component :: "string \<Rightarrow> nat option" where
  "version_component part =
    (if part \<noteq> [] \<and> list_all is_digit part \<and> length part \<le> 10 then unsigned_int part
     else None)"

definition http_version :: "string \<Rightarrow> (nat \<times> nat) option" where
  "http_version version =
    (if take 5 version \<noteq> ''HTTP/'' then None
     else
       (case split_on (CHR ''.'') (drop 5 version) of
          [major, minor] \<Rightarrow>
            (case version_component major of
               None \<Rightarrow> None
             | Some a \<Rightarrow> (case version_component minor of None \<Rightarrow> None | Some b \<Rightarrow> Some (a, b)))
        | _ \<Rightarrow> None))"

text \<open>A path that starts with two slashes is reduced to one leading slash.\<close>

definition single_slash :: "string \<Rightarrow> string" where
  "single_slash p =
    (if take 2 p = ''//'' then CHR ''/'' # dropWhile (\<lambda>c. c = CHR ''/'') p else p)"

text \<open>
  The outcome of \<open>parse_request\<close>: nothing to answer (a blank line), an error answer (with
  the request version in force when it is sent, the code and the message, and for a failure
  of the header parser the explanation), or the request with its version. The version in
  force is \<open>HTTP/0.9\<close> until the version word has been accepted.
\<close>

datatype parse_result =
    Blank
  | Rejected string int string
  | RejectedExplained string int string string
  | Parsed string request

definition checked_version :: "env \<Rightarrow> string list \<Rightarrow> parse_result + string" where
  "checked_version e words =
    (if length words \<ge> 3 then
       (case http_version (last words) of
          None \<Rightarrow>
            Inl (Rejected ''HTTP/0.9'' 400 (''Bad request version ('' @ repr e (last words) @ '')''))
        | Some (major, minor) \<Rightarrow>
            if major \<ge> 2 then
              Inl (Rejected ''HTTP/0.9'' 505
                     (''Invalid HTTP version ('' @ drop 5 (last words) @ '')''))
            else Inr (last words))
     else Inr ''HTTP/0.9'')"

definition parse_request :: "env \<Rightarrow> raw_request \<Rightarrow> parse_result" where
  "parse_request e raw =
    (let requestline = rstrip_crlf (raw_requestline raw);
         words = split_ws [] requestline
     in if words = [] then Blank
        else
          (case checked_version e words of
             Inl rejected \<Rightarrow> rejected
           | Inr version \<Rightarrow>
              if \<not> (2 \<le> length words \<and> length words \<le> 3) then
                Rejected version 400 (''Bad request syntax ('' @ repr e requestline @ '')'')
              else if length words = 2 \<and> words ! 0 \<noteq> ''GET'' then
                Rejected version 400
                  (''Bad HTTP/0.9 request type ('' @ repr e (words ! 0) @ '')'')
              else
                (case header_block raw of
                   Inl (message, explain) \<Rightarrow> RejectedExplained version 431 message explain
                 | Inr hs \<Rightarrow>
                     Parsed version
                       \<lparr>command = words ! 0, path = single_slash (words ! 1),
                        headers = hs, rfile = body_stream raw\<rparr>)))"

text \<open>
  \<open>send_error\<close> with an explanation of the caller's, and the request the error answers of
  the parser are sent for: no command is set yet.
\<close>

definition send_error_explained ::
  "env \<Rightarrow> request \<Rightarrow> int \<Rightarrow> string \<Rightarrow> string \<Rightarrow> handler \<Rightarrow> handler" where
  "send_error_explained e req code message explain h =
    (let h1 = send_header ''Connection'' ''close'' (send_response e code (Some message) h) in
     if code \<ge> 200 \<and> code \<notin> {204, 205, 304} then
       (let body = error_message_explained e code message explain;
            h2 = end_headers
                   (send_header ''Content-Length'' (str_of_nat (length body))
                     (send_header ''Content-Type'' ''text/html;charset=utf-8'' h1))
        in if command req \<noteq> ''HEAD'' \<and> body \<noteq> [] then wfile_write body h2 else h2)
     else end_headers h1)"

definition no_request :: request where
  "no_request = \<lparr>command = [], path = [], headers = [], rfile = []\<rparr>"

text \<open>
  While the request version in force is \<open>HTTP/0.9\<close>, \<open>send_response_only\<close>, \<open>send_header\<close>
  and the base class's \<open>end_headers\<close> return without buffering or writing anything;
  everything else a method does is unchanged. Of what the method writes, the client then
  receives the body chunks alone.
\<close>

fun is_Body :: "chunk \<Rightarrow> bool" where
  "is_Body (Body b) = True"
| "is_Body _ = False"

definition on_the_wire :: "string \<Rightarrow> handler \<Rightarrow> handler" where
  "on_the_wire version h =
    (if version = ''HTTP/0.9'' then h\<lparr>wfile := filter is_Body (wfile h)\<rparr> else h)"

text \<open>
  \<open>handle_one_request\<close> of the base class. A first line of more than 65536 bytes is
  answered 414 under an empty request version; an empty read ends the connection without
  an answer; a line that does not parse is answered by the parser; a parsed request is
  dispatched. (The handler keeps the protocol version \<open>HTTP/1.0\<close> of the base class, under
  which an \<open>Expect\<close> header is not acted on.)
\<close>

definition handle_one_request :: "env \<Rightarrow> raw_request \<Rightarrow> handler \<times> exn option" where
  "handle_one_request e raw =
    (if length (raw_requestline raw) > 65536 then
       (send_error e no_request 414 (responses e 414) new_handler, None)
     else if raw_requestline raw = [] then (new_handler, None)
     else
       (case parse_request e raw of
          Blank \<Rightarrow> (new_handler, None)
        | Rejected version code message \<Rightarrow>
            (on_the_wire version (send_error e no_request code message new_handler), None)
        | RejectedExplained version code message explain \<Rightarrow>
            (on_the_wire version
               (send_error_explained e no_request code message explain new_handler), None)
        | Parsed version req \<Rightarrow>
            (case handle_request e req of (h, x) \<Rightarrow> (on_the_wire version h, x))))"

text \<open>The request version in force when the answer to a request is sent.\<close>

definition response_version :: "env \<Rightarrow> raw_request \<Rightarrow> string" where
  "response_version e raw =
    (if length (raw_requestline raw) > 65536 then []
     else
       (case parse_request e raw of
          Blank \<Rightarrow> ''HTTP/0.9''
        | Rejected version code message \<Rightarrow> version
        | RejectedExplained version code message explain \<Rightarrow> version
        | Parsed version req \<Rightarrow> version))"

subsection \<open>Start-up\<close>

text \<open>
  \<open>main\<close> (source lines 76 to 98). The world decides how the three steps end: \<open>os.chdir\<close>,
  the construction of the \<open>TCPServer\<close> (which binds and listens) and \<open>serve_forever\<close>; each
  either returns (\<open>None\<close>) or raises. The result is what was printed and the exit status of
  the process: 0 when \<open>main\<close> returns, 1 when an exception leaves it.
\<close>

record world =
  os_chdir :: "exn option"
  tcp_server :: "exn option"
  serve_forever :: "exn option"

record process_end =
  printed :: "string list"
  exit_status :: nat

definition CROSS_MARK :: string where
  "CROSS_MARK = [CHR 0xE2, CHR 0x9D, CHR 0x8C]"

definition STOP_SIGN :: string where
  "STOP_SIGN = [CHR 0xF0, CHR 0x9F, CHR 0x9B, CHR 0x91]"

definition ROCKET :: string where
  "ROCKET = [CHR 0xF0, CHR 0x9F, CHR 0x9A, CHR 0x80]"

definition CLIPBOARD :: string where
  "CLIPBOARD = [CHR 0xF0, CHR 0x9F, CHR 0x93, CHR 0x8B]"

definition LINK :: string where
  "LINK = [CHR 0xF0, CHR 0x9F, CHR 0x94, CHR 0x97]"

definition banner :: "string list" where
  "banner =
    [ROCKET @ '' JavaScript Chatbot Server running at:'',
     ''   http://localhost:'' @ str_of_nat PORT,
     ''   http://127.0.0.1:'' @ str_of_nat PORT,
     [CHR 0x0A] @ CLIPBOARD @ '' Demo credentials:'',
     ''   john.doe@example.com / ORD-2024-001'',
     ''   jane.smith@company.com / ORD-2024-002'',
     [CHR 0x0A] @ LINK @ '' Backend API: '' @ BACKEND_URL,
     STOP_SIGN @ '' Press Ctrl+C to stop the server'' @ [CHR 0x0A]]"

text \<open>The two \<open>except\<close> clauses of \<open>main\<close>, applied to an exception raised in its \<open>try\<close>.\<close>

definition main_except :: "string list \<Rightarrow> exn \<Rightarrow> process_end" where
  "main_except out x =
    (if exc_class x = KeyboardInterrupt then
       \<lparr>printed = out @ [[CHR 0x0A] @ STOP_SIGN @ '' Server stopped.''], exit_status = 0\<rparr>
     else if is_OSError (exc_class x) then
       (if exc_errno x = Some 48 then
          \<lparr>printed = out @ [CROSS_MARK @ '' Port '' @ str_of_nat PORT
                              @ '' is already in use. Try a different port.''],
           exit_status = 0\<rparr>
        else
          \<lparr>printed = out @ [CROSS_MARK @ '' Server error: '' @ exc_str x], exit_status = 0\<rparr>)
     else \<lparr>printed = out, exit_status = 1\<rparr>)"

definition main :: "world \<Rightarrow> process_end" where
  "main w =
    (case os_chdir w of
       Some x \<Rightarrow> \<lparr>printed = [], exit_status = 1\<rparr>
     | None \<Rightarrow>
        (case tcp_server w of
           Some x \<Rightarrow> main_except [] x
         | None \<Rightarrow>
            (case serve_forever w of
               Some x \<Rightarrow> main_except banner x
             | None \<Rightarrow> \<lparr>printed = banner, exit_status = 0\<rparr>)))"

subsection \<open>Sample inputs\<close>

text \<open>
  A concrete environment: an upstream that answers every call with status 200, a content
  type of its own and a small body; a static root with one file.
\<close>

definition sample_response :: upstream_response where
  "sample_response =
    \<lparr>status_code = 200, response_headers = [(''Content-Type'', ''text/html'')],
     content = ''{ok:true}''\<rparr>"

definition sample_env :: env where
  "sample_env =
    \<lparr>version_string = ''SimpleHTTP/0.6 Python/3.11.4'',
     date_time_string = ''Tue, 03 Nov 2026 10:00:00 GMT'',
     responses = (\<lambda>code. if code = 200 then ''OK'' else if code = 404 then ''Not Found'' else []),
     error_message_format = (\<lambda>code message. ''<p>Message: '' @ message @ ''.</p>''),
     error_message_explained =
       (\<lambda>code message explain. ''<p>Message: '' @ message @ ''.</p><p>'' @ explain @ ''.</p>''),
     repr = (\<lambda>s. [CHR 0x27] @ s @ [CHR 0x27]),
     int_error_text = (\<lambda>v. ''int() does not accept this argument''),
     int_max_str_digits = 4300,
     read_buffer =
       (\<lambda>n. if n > 1000000 then Some (Exn MemoryError None []) else None),
     requests_post = (\<lambda>c. Inr sample_response),
     resolve = (\<lambda>root p. if p = ''/index.html'' then RegularFile ''<html></html>'' else Absent),
     guess_type = (\<lambda>p. ''text/html'')\<rparr>"



definition sample_get :: "string \<Rightarrow> request" where
  "sample_get p = \<lparr>command = ''GET'', path = p, headers = [], rfile = []\<rparr>"

text \<open>
  Two requests for a file as they arrive: one with a version word, one in the form of
  HTTP/0.9, without.
\<close>

definition versioned_get :: raw_request where
  "versioned_get =
    \<lparr>raw_requestline = ''GET /missing HTTP/1.1'' @ [CHR 0x0D, CHR 0x0A],
     header_block = Inr [], body_stream = []\<rparr>"

definition legacy_get :: raw_request where
  "legacy_get =
    \<lparr>raw_requestline = ''GET /index.html'' @ [CHR 0x0D, CHR 0x0A],
     header_block = Inr [], body_stream = []\<rparr>"


definition port_in_use :: world where
  "port_in_use =
    \<lparr>os_chdir = None,
     tcp_server = Some (Exn OSError (Some 48) ''[Errno 48] Address already in use''),
     serve_forever = None\<rparr>"

section \<open>Properties\<close>

subsection \<open>Auxiliary facts\<close>

lemmas library_defs =
  send_header_def send_response_only_def send_response_def base_end_headers_def
  wfile_write_def print_def end_headers_def send_error_def new_handler_def Let_def


lemma new_handler_fields:
  "headers_buffer new_handler = []" "wfile new_handler = []"
  "stdout new_handler = []" "posted new_handler = []"
  by (simp_all add: new_handler_def)

lemma str_of_nat_PORT: "str_of_nat PORT = ''8080''"
  by (simp add: PORT_def str_of_nat.simps digit_char_def)



lemma send_error_wfile:
  assumes "headers_buffer h = []" and "wfile h = []"
  shows "wfile (send_error e req code m h) =
    (if 200 \<le> code \<and> code \<notin> {204, 205, 304} then
       [StatusLine code m, HeaderLine ''Server'' (version_string e),
        HeaderLine ''Date'' (date_time_string e), HeaderLine ''Connection'' ''close'',
        HeaderLine ''Content-Type'' ''text/html;charset=utf-8'',
        HeaderLine ''Content-Length'' (str_of_nat (length (error_message_format e code m))),
        HeaderLine ''Access-Control-Allow-Origin'' ''*'', EndOfHeaders]
       @ (if command req \<noteq> ''HEAD'' \<and> error_message_format e code m \<noteq> []
          then [Body (error_message_format e code m)] else [])
     else
       [StatusLine code m, HeaderLine ''Server'' (version_string e),
        HeaderLine ''Date'' (date_time_string e), HeaderLine ''Connection'' ''close'',
        HeaderLine ''Access-Control-Allow-Origin'' ''*'', EndOfHeaders])"
  using assms by (simp add: library_defs)


lemma relay_stdout: "stdout (relay e r h) = stdout h"
  by (simp add: relay_def library_defs)

lemma relay_wfile:
  assumes "headers_buffer h = []" and "wfile h = []"
  shows "wfile (relay e r h) =
    [StatusLine (status_code r) (responses e (status_code r)),
     HeaderLine ''Server'' (version_string e), HeaderLine ''Date'' (date_time_string e),
     HeaderLine ''Content-Type'' ''application/json'',
     HeaderLine ''Access-Control-Allow-Origin'' ''*'',
     HeaderLine ''Access-Control-Allow-Methods'' ''POST, GET, OPTIONS'',
     HeaderLine ''Access-Control-Allow-Headers'' ''Content-Type'',
     HeaderLine ''Access-Control-Allow-Origin'' ''*'', EndOfHeaders, Body (content r)]"
  using assms by (simp add: relay_def library_defs)

lemma handle_post:
  assumes "command req = ''POST''" and "path req = ''/api/track-order''"
  shows "handle_request e req = proxy_to_backend e req new_handler"
  using assms by (simp add: handle_request_def do_POST_def)

lemma proxy_try_cases:
  obtains
    (no_length) x where "py_int e (get_header (headers req) ''Content-Length'') = Inl x"
      and "proxy_try e req h = (h, Some x)"
  | (no_read) n x where "py_int e (get_header (headers req) ''Content-Length'') = Inr n"
      and "rfile_read e (rfile req) n = Inl x"
      and "proxy_try e req h = (h, Some x)"
  | (raised) n d x where "py_int e (get_header (headers req) ''Content-Length'') = Inr n"
      and "rfile_read e (rfile req) n = Inr d"
      and "requests_post e (proxy_call d) = Inl x"
      and "proxy_try e req h = (h\<lparr>posted := posted h @ [proxy_call d]\<rparr>, Some x)"
  | (responded) n d r where "py_int e (get_header (headers req) ''Content-Length'') = Inr n"
      and "rfile_read e (rfile req) n = Inr d"
      and "requests_post e (proxy_call d) = Inr r"
      and "proxy_try e req h = (relay e r (h\<lparr>posted := posted h @ [proxy_call d]\<rparr>), None)"
proof (cases "py_int e (get_header (headers req) ''Content-Length'')")
  case (Inl x)
  then show ?thesis using no_length by (simp add: proxy_try_def)
next
  case n: (Inr n)
  show ?thesis
  proof (cases "rfile_read e (rfile req) n")
    case (Inl x)
    then show ?thesis using n no_read by (simp add: proxy_try_def)
  next
    case d: (Inr d)
    show ?thesis
    proof (cases "requests_post e (proxy_call d)")
      case (Inl x)
      then show ?thesis using n d raised by (simp add: proxy_try_def Let_def)
    next
      case (Inr r)
      then show ?thesis using n d responded by (simp add: proxy_try_def Let_def)
    qed
  qed
qed

text \<open>What \<open>proxy_to_backend\<close> makes of an exception that ended the \<open>try\<close> body.\<close>

lemma proxy_except:
  assumes "proxy_try e req h = (h1, Some x)"
  shows "proxy_to_backend e req h =
    (if is_ConnectionError (exc_class x) then
       (send_error e req 503 ''Backend service unavailable'' h1, None)
     else if is_Exception (exc_class x) then
       (send_error e req 500 ''Internal server error'' (print (''Proxy error: '' @ exc_str x) h1), None)
     else (h1, Some x))"
  using assms by (simp add: proxy_to_backend_def)

lemma proxy_success:
  assumes "proxy_try e req h = (h1, None)"
  shows "proxy_to_backend e req h = (h1, None)"
  using assms by (simp add: proxy_to_backend_def)


lemma send_error_last_header:
  assumes "headers_buffer h = []" and "wfile h = []"
  shows "headers_of (wfile (send_error e req code m h)) \<noteq> [] \<and>
    last (headers_of (wfile (send_error e req code m h))) = (''Access-Control-Allow-Origin'', ''*'')"
  using assms by (simp add: send_error_wfile)

lemma proxy_except_result [consumes 3, case_names error uncaught]:
  assumes T: "proxy_try e req h = (h1, Some x)"
    and B: "headers_buffer h1 = []" and W: "wfile h1 = []"
  obtains (error) code m h2 where "proxy_to_backend e req h = (send_error e req code m h2, None)"
      and "headers_buffer h2 = []" and "wfile h2 = []"
  | (uncaught) "proxy_to_backend e req h = (h1, Some x)"
proof (cases "is_ConnectionError (exc_class x)")
  case True
  then have "proxy_to_backend e req h = (send_error e req 503 ''Backend service unavailable'' h1, None)"
    by (simp add: proxy_except [OF T])
  then show ?thesis using error B W by blast
next
  case False
  show ?thesis
  proof (cases "is_Exception (exc_class x)")
    case True
    with False have "proxy_to_backend e req h =
        (send_error e req 500 ''Internal server error'' (print (''Proxy error: '' @ exc_str x) h1), None)"
      by (simp add: proxy_except [OF T])
    moreover have "headers_buffer (print (''Proxy error: '' @ exc_str x) h1) = []"
      and "wfile (print (''Proxy error: '' @ exc_str x) h1) = []"
      using B W by (simp_all add: print_def)
    ultimately show ?thesis using error by blast
  next
    case F2: False
    with False have "proxy_to_backend e req h = (h1, Some x)"
      by (simp add: proxy_except [OF T])
    then show ?thesis using uncaught by blast
  qed
qed

lemma last_header_send_file:
  assumes "headers_buffer h = []" and "wfile h = []"
  shows "headers_of (wfile (send_file e req b h)) \<noteq> [] \<and>
   last (headers_of (wfile (send_file e req b h))) = (''Access-Control-Allow-Origin'', ''*'')"
  using assms by (simp add: send_file_def library_defs)

lemma last_header_static:
  assumes "headers_buffer h = []" and "wfile h = []"
  shows "headers_of (wfile (send_static e req h)) \<noteq> [] \<and>
   last (headers_of (wfile (send_static e req h))) = (''Access-Control-Allow-Origin'', ''*'')"
  using assms
  by (simp add: send_static_def send_error_last_header last_header_send_file
      split: fs_entry.split option.split)

lemma last_header_options:
  "headers_of (wfile (do_OPTIONS e new_handler)) \<noteq> [] \<and>
   last (headers_of (wfile (do_OPTIONS e new_handler))) =
     (''Access-Control-Allow-Origin'', ''*'')"
  by (simp add: do_OPTIONS_def library_defs)

lemma last_header_proxy:
  assumes "wfile (fst (proxy_to_backend e req new_handler)) \<noteq> []"
  shows "headers_of (wfile (fst (proxy_to_backend e req new_handler))) \<noteq> [] \<and>
   last (headers_of (wfile (fst (proxy_to_backend e req new_handler)))) =
     (''Access-Control-Allow-Origin'', ''*'')"
proof -
  have N: "headers_buffer new_handler = []" "wfile new_handler = []"
    by (simp_all add: new_handler_def)
  have caught: ?thesis if T: "proxy_try e req new_handler = (h1, Some x)"
    and B: "headers_buffer h1 = []" "wfile h1 = []" for h1 x
    using T B
  proof (cases rule: proxy_except_result)
    case (error code m h2)
    then show ?thesis by (simp add: send_error_last_header)
  next
    case uncaught
    with assms B show ?thesis by simp
  qed
  show ?thesis
  proof (cases rule: proxy_try_cases [of e req new_handler])
    case (no_length x)
    from caught [OF no_length(2) N] show ?thesis .
  next
    case (no_read n x)
    from caught [OF no_read(3) N] show ?thesis .
  next
    case (raised n d x)
    show ?thesis
      by (rule caught [OF raised(4)]) (simp_all add: new_handler_def)
  next
    case (responded n d r)
    have "proxy_to_backend e req new_handler =
        (relay e r (new_handler\<lparr>posted := posted new_handler @ [proxy_call d]\<rparr>), None)"
      by (rule proxy_success [OF responded(4)])
    then show ?thesis
      by (simp add: relay_wfile new_handler_def)
  qed
qed


text \<open>A method that returns has written a response.\<close>

lemma proxy_returns_emits:
  assumes "snd (proxy_to_backend e req new_handler) = None"
  shows "wfile (fst (proxy_to_backend e req new_handler)) \<noteq> []"
proof -
  have caught: ?thesis if T: "proxy_try e req new_handler = (h1, Some x)"
    and B: "headers_buffer h1 = []" "wfile h1 = []" for h1 x
    using T B
  proof (cases rule: proxy_except_result)
    case (error code m h2)
    then show ?thesis by (simp add: send_error_wfile)
  next
    case uncaught
    with assms show ?thesis by simp
  qed
  show ?thesis
  proof (cases rule: proxy_try_cases [of e req new_handler])
    case (no_length x)
    from caught [OF no_length(2) new_handler_fields(1,2)] show ?thesis .
  next
    case (no_read n x)
    from caught [OF no_read(3) new_handler_fields(1,2)] show ?thesis .
  next
    case (raised n d x)
    show ?thesis
      by (rule caught [OF raised(4)]) (simp_all add: new_handler_def)
  next
    case (responded n d r)
    have "proxy_to_backend e req new_handler =
        (relay e r (new_handler\<lparr>posted := posted new_handler @ [proxy_call d]\<rparr>), None)"
      by (rule proxy_success [OF responded(4)])
    then show ?thesis
      by (simp add: relay_wfile new_handler_def)
  qed
qed

lemma handler_returns_emits:
  assumes "snd (handle_request e req) = None"
  shows "wfile (fst (handle_request e req)) \<noteq> []"
proof (cases "command req = ''POST'' \<and> path req = ''/api/track-order''")
  case True
  with assms proxy_returns_emits [of e req] show ?thesis
    by (simp add: handle_post)
next
  case False
  then show ?thesis
    by (auto simp add: handle_request_def do_POST_def do_GET_def do_HEAD_def do_OPTIONS_def
        send_static_def send_file_def library_defs split: fs_entry.split option.split)
qed

















text \<open>The sample request lines, parsed.\<close>

lemma legacy_parsed: "parse_request e legacy_get = Parsed ''HTTP/0.9'' (sample_get ''/index.html'')"
  by (simp add: parse_request_def legacy_get_def rstrip_crlf_def is_unicode_space_def
      checked_version_def single_slash_def sample_get_def Let_def)

lemma versioned_parsed: "parse_request e versioned_get = Parsed ''HTTP/1.1'' (sample_get ''/missing'')"
  by (simp add: parse_request_def versioned_get_def rstrip_crlf_def is_unicode_space_def
      checked_version_def http_version_def version_component_def is_digit_def digit_val_def
      unsigned_int_def single_slash_def sample_get_def Let_def)

subsection \<open>The proxy route\<close>













subsection \<open>CORS\<close>

text \<open>
  The answers of the dispatch: the last line of their header block is the CORS header that
  the override of \<open>end_headers\<close> adds.
\<close>

lemma dispatched_response_allows_origin:
  assumes "wfile (fst (handle_request e req)) \<noteq> []"
  shows "headers_of (wfile (fst (handle_request e req))) \<noteq> [] \<and>
    last (headers_of (wfile (fst (handle_request e req)))) = (''Access-Control-Allow-Origin'', ''*'')"
proof -
  have N: "headers_buffer new_handler = []" "wfile new_handler = []"
    by (simp_all add: new_handler_def)
  consider (get) "command req = ''GET''" | (head) "command req = ''HEAD''"
    | (post_proxy) "command req = ''POST''" "path req = ''/api/track-order''"
    | (post_other) "command req = ''POST''" "path req \<noteq> ''/api/track-order''"
    | (options) "command req = ''OPTIONS''"
    | (other) "command req \<noteq> ''GET''" "command req \<noteq> ''HEAD''" "command req \<noteq> ''POST''"
        "command req \<noteq> ''OPTIONS''"
    by blast
  then show ?thesis
  proof cases
    case get
    then show ?thesis by (simp add: handle_request_def do_GET_def last_header_static N)
  next
    case head
    then show ?thesis by (simp add: handle_request_def do_HEAD_def last_header_static N)
  next
    case post_proxy
    then show ?thesis using assms last_header_proxy [of e req] by (simp add: handle_post)
  next
    case post_other
    then show ?thesis by (simp add: handle_request_def do_POST_def send_error_last_header N)
  next
    case options
    then show ?thesis by (simp add: handle_request_def last_header_options)
  next
    case other
    then show ?thesis by (simp add: handle_request_def send_error_last_header N)
  qed
qed

lemma send_error_explained_last_header:
  assumes "headers_buffer h = []" and "wfile h = []"
  shows "headers_of (wfile (send_error_explained e req code m x h)) \<noteq> [] \<and>
    last (headers_of (wfile (send_error_explained e req code m x h))) =
      (''Access-Control-Allow-Origin'', ''*'')"
  using assms by (simp add: send_error_explained_def library_defs)

text \<open>
  C3, as amended. Every response the server emits while the request version in force is not
  \<open>HTTP/0.9\<close>, whichever responder produced it (static file, proxy, preflight, or an error
  answer such as 400, 404, 414, 431, 500, 501 or 503), has a header block whose last line,
  written just before the block is sent, is \<open>Access-Control-Allow-Origin: *\<close>.
\<close>

theorem versioned_response_allows_origin:
  assumes "wfile (fst (handle_one_request e raw)) \<noteq> []"
    and "response_version e raw \<noteq> ''HTTP/0.9''"
  shows "headers_of (wfile (fst (handle_one_request e raw))) \<noteq> [] \<and>
    last (headers_of (wfile (fst (handle_one_request e raw)))) =
      (''Access-Control-Allow-Origin'', ''*'')"
proof (cases "length (raw_requestline raw) > 65536")
  case True
  then show ?thesis
    by (simp add: handle_one_request_def send_error_last_header new_handler_fields)
next
  case short: False
  show ?thesis
  proof (cases "raw_requestline raw = []")
    case True
    with assms(1) show ?thesis
      by (simp add: handle_one_request_def new_handler_fields)
  next
    case False
    show ?thesis
    proof (cases "parse_request e raw")
      case Blank
      with assms(1) short False show ?thesis
        by (simp add: handle_one_request_def new_handler_fields)
    next
      case (Rejected version code message)
      with assms(2) short have "version \<noteq> ''HTTP/0.9''"
        by (simp add: response_version_def)
      with Rejected short False show ?thesis
        by (simp add: handle_one_request_def on_the_wire_def send_error_last_header
            new_handler_fields)
    next
      case (RejectedExplained version code message explain)
      with assms(2) short have "version \<noteq> ''HTTP/0.9''"
        by (simp add: response_version_def)
      with RejectedExplained short False show ?thesis
        by (simp add: handle_one_request_def on_the_wire_def send_error_explained_last_header
            new_handler_fields)
    next
      case (Parsed version req)
      with assms(2) short have V: "version \<noteq> ''HTTP/0.9''"
        by (simp add: response_version_def)
      with Parsed short False have H: "handle_one_request e raw = handle_request e req"
        by (simp add: handle_one_request_def on_the_wire_def split: prod.split)
      with assms(1) dispatched_response_allows_origin [of e req] show ?thesis
        by simp
    qed
  qed
qed

theorem versioned_response_allows_origin_witness:
  "wfile (fst (handle_one_request sample_env versioned_get)) \<noteq> [] \<and>
   response_version sample_env versioned_get = ''HTTP/1.1'' \<and>
   status_of (wfile (fst (handle_one_request sample_env versioned_get))) = Some 404 \<and>
   last (headers_of (wfile (fst (handle_one_request sample_env versioned_get)))) =
     (''Access-Control-Allow-Origin'', ''*'')"
proof -
  have L: "\<not> length (raw_requestline versioned_get) > 65536" "raw_requestline versioned_get \<noteq> []"
    by (simp_all add: versioned_get_def)
  have H: "handle_one_request sample_env versioned_get =
      handle_request sample_env (sample_get ''/missing'')"
    using L by (simp add: handle_one_request_def versioned_parsed on_the_wire_def split: prod.split)
  have V: "response_version sample_env versioned_get = ''HTTP/1.1''"
    using L by (simp add: response_version_def versioned_parsed)
  have W: "wfile (fst (handle_request sample_env (sample_get ''/missing''))) =
      wfile (send_error sample_env (sample_get ''/missing'') 404 ''File not found'' new_handler)"
    by (simp add: handle_request_def do_GET_def send_static_def sample_get_def sample_env_def)
  have N: "wfile (fst (handle_one_request sample_env versioned_get)) \<noteq> []"
    and S: "status_of (wfile (fst (handle_one_request sample_env versioned_get))) = Some 404"
    by (simp_all add: H W send_error_wfile new_handler_fields)
  from versioned_response_allows_origin [OF N] V S N show ?thesis
    by simp
qed

text \<open>
  C3, as stated, fails: a request line without a version word is a request of HTTP/0.9, and
  its answer is the file's bytes with no status line and no header at all.
\<close>

theorem legacy_response_has_no_header:
  "response_version sample_env legacy_get = ''HTTP/0.9'' \<and>
   wfile (fst (handle_one_request sample_env legacy_get)) = [Body ''<html></html>''] \<and>
   (''Access-Control-Allow-Origin'', ''*'')
     \<notin> set (headers_of (wfile (fst (handle_one_request sample_env legacy_get))))"
proof -
  have L: "\<not> length (raw_requestline legacy_get) > 65536" "raw_requestline legacy_get \<noteq> []"
    by (simp_all add: legacy_get_def)
  have W: "wfile (fst (handle_request sample_env (sample_get ''/index.html''))) =
      wfile (send_file sample_env (sample_get ''/index.html'') ''<html></html>'' new_handler)"
    by (simp add: handle_request_def do_GET_def send_static_def sample_get_def sample_env_def)
  have "wfile (fst (handle_one_request sample_env legacy_get)) =
      filter is_Body (wfile (fst (handle_request sample_env (sample_get ''/index.html''))))"
    using L by (simp add: handle_one_request_def legacy_parsed on_the_wire_def split: prod.split)
  then have "wfile (fst (handle_one_request sample_env legacy_get)) =
      filter is_Body
        (wfile (send_file sample_env (sample_get ''/index.html'') ''<html></html>'' new_handler))"
    unfolding W .
  then have "wfile (fst (handle_one_request sample_env legacy_get)) = [Body ''<html></html>'']"
    by (simp add: send_file_def library_defs sample_get_def)
  moreover have "response_version sample_env legacy_get = ''HTTP/0.9''"
    using L by (simp add: response_version_def legacy_parsed)
  ultimately show ?thesis by simp
qed




subsection \<open>Static files\<close>



subsection \<open>Start-up\<close>

text \<open>
  C9, as amended. When the construction of the server raises \<open>OSError\<close> (the port cannot be
  bound), \<open>main\<close> prints one line, the port-in-use message when the error number is 48 and
  otherwise the server-error message with the text of the exception, and returns: the exit
  status is 0.
\<close>

theorem bind_failure_prints_and_returns:
  assumes "os_chdir w = None" and "tcp_server w = Some x" and "exc_class x = OSError"
  shows "exit_status (main w) = 0 \<and>
    printed (main w) =
      [if exc_errno x = Some 48
       then CROSS_MARK @ '' Port 8080 is already in use. Try a different port.''
       else CROSS_MARK @ '' Server error: '' @ exc_str x]"
  using assms
  by (simp add: main_def main_except_def str_of_nat_PORT)

theorem bind_failure_prints_and_returns_witness:
  "exit_status (main port_in_use) = 0 \<and>
   printed (main port_in_use) =
     [CROSS_MARK @ '' Port 8080 is already in use. Try a different port.'']"
  using bind_failure_prints_and_returns
    [of port_in_use "Exn OSError (Some 48) ''[Errno 48] Address already in use''"]
  by (simp add: port_in_use_def)

text \<open>
  C9, as stated, fails: with the port in use, the exit status is 0, not a non-zero value.
\<close>

theorem bind_failure_exit_status_zero:
  "tcp_server port_in_use = Some (Exn OSError (Some 48) ''[Errno 48] Address already in use'') \<and>
   \<not> exit_status (main port_in_use) \<noteq> 0"
  by (simp add: main_def main_except_def port_in_use_def)

end
